theory Spec2Isabelle
  imports Complex_Main "HOL-Library.AList"
begin

section \<open>JavaScript values and objects\<close>

text \<open>
  The OpenFDA client (\<^verbatim>\<open>build/utils/api-client.js\<close>) and the server
  (\<^verbatim>\<open>fda-server.js\<close>) are JavaScript. A number is a double: the finite doubles are
  rationals, on which \<^verbatim>\<open>Math.min\<close> is exact, so a finite number is modelled as a
  \<^typ>\<open>rat\<close> (every statement over all rationals holds for all finite doubles), and
  the three special values are constructors of their own. The two zeros are identified:
  both are falsy, and the code never divides.
\<close>

datatype jsnum = NaN | NegInf | Fin rat | PosInf

text \<open>The primitive values a parameter object of the client holds.\<close>

datatype jsval = JUndefined | JNull | JBool bool | JNum jsnum | JStr string

text \<open>\<^verbatim>\<open>if (v)\<close>: the truthiness of a primitive value.\<close>

fun truthy :: "jsval \<Rightarrow> bool" where
  "truthy JUndefined = False"
| "truthy JNull = False"
| "truthy (JBool b) = b"
| "truthy (JNum NaN) = False"
| "truthy (JNum (Fin q)) = (q \<noteq> 0)"
| "truthy (JNum NegInf) = True"
| "truthy (JNum PosInf) = True"
| "truthy (JStr s) = (s \<noteq> [])"

text \<open>
  \<^verbatim>\<open>Math.min(a, b)\<close> converts both arguments to numbers; a NaN argument makes the
  result NaN. The conversion of a string to a number is the runtime's
  \<^verbatim>\<open>StringToNumber\<close>, which the models below take as the parameter \<open>sn\<close>.
\<close>

fun ToNumber :: "(string \<Rightarrow> jsnum) \<Rightarrow> jsval \<Rightarrow> jsnum" where
  "ToNumber sn JUndefined = NaN"
| "ToNumber sn JNull = Fin 0"
| "ToNumber sn (JBool b) = (if b then Fin 1 else Fin 0)"
| "ToNumber sn (JNum n) = n"
| "ToNumber sn (JStr s) = sn s"

fun num_min :: "jsnum \<Rightarrow> jsnum \<Rightarrow> jsnum" where
  "num_min NaN y = NaN"
| "num_min x NaN = NaN"
| "num_min NegInf y = NegInf"
| "num_min x NegInf = NegInf"
| "num_min PosInf y = y"
| "num_min x PosInf = x"
| "num_min (Fin a) (Fin b) = Fin (min a b)"

definition Math_min :: "(string \<Rightarrow> jsnum) \<Rightarrow> jsval \<Rightarrow> jsval \<Rightarrow> jsval" where
  "Math_min sn a b = JNum (num_min (ToNumber sn a) (ToNumber sn b))"

text \<open>
  An object is the list of its own properties in insertion order. Reading a missing
  property gives \<^verbatim>\<open>undefined\<close>; an assignment overwrites the property in
  place or appends it; \<^verbatim>\<open>delete\<close> removes it.
\<close>

type_synonym jsobj = "(string \<times> jsval) list"

definition obj_get :: "jsobj \<Rightarrow> string \<Rightarrow> jsval" where
  "obj_get ob k = (case map_of ob k of None \<Rightarrow> JUndefined | Some v \<Rightarrow> v)"

definition obj_set :: "jsobj \<Rightarrow> string \<Rightarrow> jsval \<Rightarrow> jsobj" where
  "obj_set ob k v = AList.update k v ob"

definition obj_delete :: "string \<Rightarrow> jsobj \<Rightarrow> jsobj" where
  "obj_delete k ob = AList.delete k ob"

definition obj_keys :: "jsobj \<Rightarrow> string list" where
  "obj_keys ob = map fst ob"

section \<open>The FDA API client: configuration\<close>

definition DEFAULT_LIMIT :: rat where
  "DEFAULT_LIMIT = 10"

definition MAX_LIMIT :: rat where
  "MAX_LIMIT = 100"

text \<open>
  \<^verbatim>\<open>const FDA_API_KEY = process.env.FDA_API_KEY || 'sNQR...8YQD'\<close>: the argument is
  the value of the environment variable when the module is loaded (\<open>None\<close> when it is
  not set). An unset or empty variable is falsy, and the literal is taken.
\<close>

definition FDA_API_KEY :: "string option \<Rightarrow> string" where
  "FDA_API_KEY env =
     (case env of
        None \<Rightarrow> ''sNQRRzbOvngzuFVbiajF6AelXY7QncaX3OKN8YQD''
      | Some k \<Rightarrow> if k \<noteq> [] then k else ''sNQRRzbOvngzuFVbiajF6AelXY7QncaX3OKN8YQD'')"

text \<open>The one field of the client that the claims read.\<close>

record FDAAPIClient =
  hasAPIKey :: bool

text \<open>The constructor: \<^verbatim>\<open>this.hasAPIKey = !!FDA_API_KEY\<close>.\<close>

definition new_FDAAPIClient :: "string option \<Rightarrow> FDAAPIClient" where
  "new_FDAAPIClient env = \<lparr> hasAPIKey = (FDA_API_KEY env \<noteq> []) \<rparr>"

section \<open>The FDA API client: the parameters of a request\<close>

text \<open>
  The three steps of \<^verbatim>\<open>get\<close> before the request is sent, each on the copy
  \<^verbatim>\<open>requestParams = { ...params }\<close>.
\<close>

definition add_api_key :: "string option \<Rightarrow> FDAAPIClient \<Rightarrow> jsobj \<Rightarrow> jsobj" where
  "add_api_key env this requestParams =
     (if hasAPIKey this then obj_set requestParams ''api_key'' (JStr (FDA_API_KEY env))
      else requestParams)"

definition ensure_limit :: "(string \<Rightarrow> jsnum) \<Rightarrow> jsobj \<Rightarrow> jsobj" where
  "ensure_limit sn requestParams =
     (if truthy (obj_get requestParams ''limit'')
      then obj_set requestParams ''limit''
             (Math_min sn (obj_get requestParams ''limit'') (JNum (Fin MAX_LIMIT)))
      else obj_set requestParams ''limit'' (JNum (Fin DEFAULT_LIMIT)))"

text \<open>
  \<^verbatim>\<open>Object.keys(requestParams).forEach(key => ...)\<close>: the keys are listed once,
  then each one is visited and deleted when its value is undefined or null.
\<close>

definition remove_step :: "string \<Rightarrow> jsobj \<Rightarrow> jsobj" where
  "remove_step key requestParams =
     (if obj_get requestParams key = JUndefined \<or> obj_get requestParams key = JNull
      then obj_delete key requestParams else requestParams)"

definition remove_undefined :: "jsobj \<Rightarrow> jsobj" where
  "remove_undefined requestParams = fold remove_step (obj_keys requestParams) requestParams"

definition prepared_params :: "(string \<Rightarrow> jsnum) \<Rightarrow> string option \<Rightarrow> FDAAPIClient \<Rightarrow> jsobj \<Rightarrow> jsobj" where
  "prepared_params sn env this params = ensure_limit sn (add_api_key env this params)"

definition request_params :: "(string \<Rightarrow> jsnum) \<Rightarrow> string option \<Rightarrow> FDAAPIClient \<Rightarrow> jsobj \<Rightarrow> jsobj" where
  "request_params sn env this params = remove_undefined (prepared_params sn env this params)"

text \<open>
  \<^verbatim>\<open>buildSearchParams\<close> starts from an empty object and copies the four
  fields it knows when they are truthy, the limit through \<^verbatim>\<open>Math.min\<close>.
\<close>

definition buildSearchParams :: "(string \<Rightarrow> jsnum) \<Rightarrow> jsobj \<Rightarrow> jsobj" where
  "buildSearchParams sn searchParams =
     (let params = [];
          params = (if truthy (obj_get searchParams ''search'')
                    then obj_set params ''search'' (obj_get searchParams ''search'') else params);
          params = (if truthy (obj_get searchParams ''count'')
                    then obj_set params ''count'' (obj_get searchParams ''count'') else params);
          params = (if truthy (obj_get searchParams ''limit'')
                    then obj_set params ''limit''
                           (Math_min sn (obj_get searchParams ''limit'') (JNum (Fin MAX_LIMIT)))
                    else params);
          params = (if truthy (obj_get searchParams ''skip'')
                    then obj_set params ''skip'' (obj_get searchParams ''skip'') else params)
      in params)"

section \<open>The FDA API client: errors of the transport\<close>

text \<open>
  What \<^verbatim>\<open>handleAPIError\<close> reads of the error axios rejects with: the response
  (its status and the value of \<^verbatim>\<open>data?.error?.message\<close>, \<open>None\<close> when a link
  of the chain is missing), whether \<^verbatim>\<open>error.request\<close> is set, and
  \<^verbatim>\<open>error.message\<close>.
\<close>

record error_response =
  status :: nat
  data_error_message :: "string option"

record axios_error =
  response :: "error_response option"
  request :: bool
  message :: string

text \<open>\<^verbatim>\<open>new Error(message)\<close>: the object has a message and nothing else of its own.\<close>

datatype js_error = Error string

text \<open>
  Reading a property of such an error: \<^verbatim>\<open>message\<close> is its own property,
  \<^verbatim>\<open>name\<close> comes from the prototype, every other name (\<^verbatim>\<open>status\<close>,
  \<^verbatim>\<open>code\<close>, \<^verbatim>\<open>response\<close>) is undefined. The engine's
  \<^verbatim>\<open>stack\<close> text is left out.
\<close>

fun error_prop :: "js_error \<Rightarrow> string \<Rightarrow> jsval" where
  "error_prop (Error m) k =
     (if k = ''message'' then JStr m else if k = ''name'' then JStr ''Error'' else JUndefined)"

text \<open>\<^verbatim>\<open>a || b\<close> on an optional string: an absent or empty \<open>a\<close> is falsy.\<close>

definition or_else :: "string option \<Rightarrow> string \<Rightarrow> string" where
  "or_else a b = (case a of None \<Rightarrow> b | Some s \<Rightarrow> if s \<noteq> [] then s else b)"

text \<open>The decimal text of a status inside a template literal.\<close>

fun show_nat :: "nat \<Rightarrow> string" where
  "show_nat n =
     (if n < 10 then [''0123456789'' ! n]
      else show_nat (n div 10) @ [''0123456789'' ! (n mod 10)])"

declare show_nat.simps [simp del]

text \<open>\<^verbatim>\<open>handleAPIError\<close> always throws; its value here is the error thrown.\<close>

definition handleAPIError :: "FDAAPIClient \<Rightarrow> axios_error \<Rightarrow> js_error" where
  "handleAPIError this error =
     (case response error of
        Some resp \<Rightarrow>
          (if status resp = 400 then
             Error (''Bad Request: '' @ or_else (data_error_message resp) ''Invalid search parameters'')
           else if status resp = 404 then
             Error ''No results found for the given search criteria''
           else if status resp = 429 then
             Error (''Rate limit exceeded. '' @
                    (if hasAPIKey this then ''API key rate limits''
                     else ''Consider using an API key for higher limits''))
           else if status resp = 500 then
             Error ''FDA API server error. Please try again later''
           else if status resp = 503 then
             Error ''FDA API service temporarily unavailable''
           else
             Error (''FDA API error ('' @ show_nat (status resp) @ ''): '' @
                    or_else (data_error_message resp) (message error)))
      | None \<Rightarrow>
          (if request error then Error ''Network error: Unable to connect to FDA API''
           else Error (''Request error: '' @ message error)))"

section \<open>The FDA API client: sending\<close>

text \<open>
  A request as it leaves the client, and what axios settles the call with: the data of
  the response, or the error it rejects with.
\<close>

record http_request =
  endpoint :: string
  params :: jsobj

datatype 'd axios_outcome = Resolved 'd | Rejected axios_error

text \<open>
  \<^verbatim>\<open>this.axiosInstance.get(endpoint, { params })\<close> with the response interceptor
  of the constructor installed. The network is the parameter \<open>reply\<close>, which may
  answer a request differently each time (it sees the requests issued before); the
  state is the list of requests issued so far. A resolved response passes the
  interceptor unchanged, a rejected one goes through \<^verbatim>\<open>handleAPIError\<close>.
\<close>

definition axiosInstance_get ::
  "(http_request list \<Rightarrow> http_request \<Rightarrow> 'd axios_outcome) \<Rightarrow> FDAAPIClient \<Rightarrow>
   http_request \<Rightarrow> http_request list \<Rightarrow> (js_error + 'd) \<times> http_request list" where
  "axiosInstance_get reply this req issued =
     (case reply issued req of
        Resolved d \<Rightarrow> (Inr d, issued @ [req])
      | Rejected e \<Rightarrow> (Inl (handleAPIError this e), issued @ [req]))"

text \<open>
  \<^verbatim>\<open>get(endpoint, params)\<close>: the parameters are prepared, the request is sent,
  \<^verbatim>\<open>response.data\<close> is returned, and an error is thrown on as it is.
\<close>

definition get ::
  "(string \<Rightarrow> jsnum) \<Rightarrow> string option \<Rightarrow>
   (http_request list \<Rightarrow> http_request \<Rightarrow> 'd axios_outcome) \<Rightarrow> FDAAPIClient \<Rightarrow>
   string \<Rightarrow> jsobj \<Rightarrow> http_request list \<Rightarrow> (js_error + 'd) \<times> http_request list" where
  "get sn env reply this endpoint_path ps issued =
     (case axiosInstance_get reply this
             \<lparr> endpoint = endpoint_path, params = request_params sn env this ps \<rparr> issued of
        (Inr d, issued') \<Rightarrow> (Inr d, issued')
      | (Inl error, issued') \<Rightarrow> (Inl error, issued'))"

text \<open>
  The twelve search operations, the only callers of \<^verbatim>\<open>get\<close>: each builds the
  parameters with \<^verbatim>\<open>buildSearchParams\<close> and sends them to its own path.
\<close>

type_synonym 'd search_operation =
  "jsobj \<Rightarrow> http_request list \<Rightarrow> (js_error + 'd) \<times> http_request list"

definition searchDrugAdverseEvents ::
  "(string \<Rightarrow> jsnum) \<Rightarrow> string option \<Rightarrow>
   (http_request list \<Rightarrow> http_request \<Rightarrow> 'd axios_outcome) \<Rightarrow> FDAAPIClient \<Rightarrow>
   'd search_operation" where
  "searchDrugAdverseEvents sn env reply this searchParams issued =
     get sn env reply this ''/drug/event.json'' (buildSearchParams sn searchParams) issued"

definition searchDrugLabels ::
  "(string \<Rightarrow> jsnum) \<Rightarrow> string option \<Rightarrow>
   (http_request list \<Rightarrow> http_request \<Rightarrow> 'd axios_outcome) \<Rightarrow> FDAAPIClient \<Rightarrow>
   'd search_operation" where
  "searchDrugLabels sn env reply this searchParams issued =
     get sn env reply this ''/drug/label.json'' (buildSearchParams sn searchParams) issued"

definition searchDrugNDC ::
  "(string \<Rightarrow> jsnum) \<Rightarrow> string option \<Rightarrow>
   (http_request list \<Rightarrow> http_request \<Rightarrow> 'd axios_outcome) \<Rightarrow> FDAAPIClient \<Rightarrow>
   'd search_operation" where
  "searchDrugNDC sn env reply this searchParams issued =
     get sn env reply this ''/drug/ndc.json'' (buildSearchParams sn searchParams) issued"

definition searchDrugRecalls ::
  "(string \<Rightarrow> jsnum) \<Rightarrow> string option \<Rightarrow>
   (http_request list \<Rightarrow> http_request \<Rightarrow> 'd axios_outcome) \<Rightarrow> FDAAPIClient \<Rightarrow>
   jsobj \<Rightarrow> http_request list \<Rightarrow> (js_error + 'd) \<times> http_request list" where
  "searchDrugRecalls sn env reply this searchParams issued =
     get sn env reply this ''/drug/enforcement.json'' (buildSearchParams sn searchParams) issued"

definition searchDrugsFDA ::
  "(string \<Rightarrow> jsnum) \<Rightarrow> string option \<Rightarrow>
   (http_request list \<Rightarrow> http_request \<Rightarrow> 'd axios_outcome) \<Rightarrow> FDAAPIClient \<Rightarrow>
   'd search_operation" where
  "searchDrugsFDA sn env reply this searchParams issued =
     get sn env reply this ''/drug/drugsfda.json'' (buildSearchParams sn searchParams) issued"

definition searchDrugShortages ::
  "(string \<Rightarrow> jsnum) \<Rightarrow> string option \<Rightarrow>
   (http_request list \<Rightarrow> http_request \<Rightarrow> 'd axios_outcome) \<Rightarrow> FDAAPIClient \<Rightarrow>
   'd search_operation" where
  "searchDrugShortages sn env reply this searchParams issued =
     get sn env reply this ''/drug/drugshortages.json'' (buildSearchParams sn searchParams) issued"

definition searchDevice510K ::
  "(string \<Rightarrow> jsnum) \<Rightarrow> string option \<Rightarrow>
   (http_request list \<Rightarrow> http_request \<Rightarrow> 'd axios_outcome) \<Rightarrow> FDAAPIClient \<Rightarrow>
   'd search_operation" where
  "searchDevice510K sn env reply this searchParams issued =
     get sn env reply this ''/device/510k.json'' (buildSearchParams sn searchParams) issued"

definition searchDeviceClassifications ::
  "(string \<Rightarrow> jsnum) \<Rightarrow> string option \<Rightarrow>
   (http_request list \<Rightarrow> http_request \<Rightarrow> 'd axios_outcome) \<Rightarrow> FDAAPIClient \<Rightarrow>
   'd search_operation" where
  "searchDeviceClassifications sn env reply this searchParams issued =
     get sn env reply this ''/device/classification.json'' (buildSearchParams sn searchParams) issued"

definition searchDeviceAdverseEvents ::
  "(string \<Rightarrow> jsnum) \<Rightarrow> string option \<Rightarrow>
   (http_request list \<Rightarrow> http_request \<Rightarrow> 'd axios_outcome) \<Rightarrow> FDAAPIClient \<Rightarrow>
   'd search_operation" where
  "searchDeviceAdverseEvents sn env reply this searchParams issued =
     get sn env reply this ''/device/event.json'' (buildSearchParams sn searchParams) issued"

definition searchDeviceRecalls ::
  "(string \<Rightarrow> jsnum) \<Rightarrow> string option \<Rightarrow>
   (http_request list \<Rightarrow> http_request \<Rightarrow> 'd axios_outcome) \<Rightarrow> FDAAPIClient \<Rightarrow>
   'd search_operation" where
  "searchDeviceRecalls sn env reply this searchParams issued =
     get sn env reply this ''/device/enforcement.json'' (buildSearchParams sn searchParams) issued"

definition searchFoodAdverseEvents ::
  "(string \<Rightarrow> jsnum) \<Rightarrow> string option \<Rightarrow>
   (http_request list \<Rightarrow> http_request \<Rightarrow> 'd axios_outcome) \<Rightarrow> FDAAPIClient \<Rightarrow>
   'd search_operation" where
  "searchFoodAdverseEvents sn env reply this searchParams issued =
     get sn env reply this ''/food/event.json'' (buildSearchParams sn searchParams) issued"

definition searchFoodRecalls ::
  "(string \<Rightarrow> jsnum) \<Rightarrow> string option \<Rightarrow>
   (http_request list \<Rightarrow> http_request \<Rightarrow> 'd axios_outcome) \<Rightarrow> FDAAPIClient \<Rightarrow>
   'd search_operation" where
  "searchFoodRecalls sn env reply this searchParams issued =
     get sn env reply this ''/food/enforcement.json'' (buildSearchParams sn searchParams) issued"

text \<open>The twelve of them, in the order of the source.\<close>

definition search_operations ::
  "(string \<Rightarrow> jsnum) \<Rightarrow> string option \<Rightarrow>
   (http_request list \<Rightarrow> http_request \<Rightarrow> 'd axios_outcome) \<Rightarrow> FDAAPIClient \<Rightarrow>
   'd search_operation list" where
  "search_operations sn env reply this =
     [searchDrugAdverseEvents sn env reply this, searchDrugLabels sn env reply this,
      searchDrugNDC sn env reply this, searchDrugRecalls sn env reply this,
      searchDrugsFDA sn env reply this, searchDrugShortages sn env reply this,
      searchDevice510K sn env reply this, searchDeviceClassifications sn env reply this,
      searchDeviceAdverseEvents sn env reply this, searchDeviceRecalls sn env reply this,
      searchFoodAdverseEvents sn env reply this, searchFoodRecalls sn env reply this]"

text \<open>The parameters of the last request in the outcome of an operation.\<close>

definition sent_params :: "(js_error + 'd) \<times> http_request list \<Rightarrow> jsobj" where
  "sent_params outcome = params (last (snd outcome))"

section \<open>The server: dispatching a tool call\<close>

text \<open>The error codes of the protocol SDK, and what a JavaScript function can throw.\<close>

datatype ErrorCode =
  ConnectionClosed | RequestTimeout | ParseError | InvalidRequest
  | MethodNotFound | InvalidParams | InternalError

datatype thrown =
  McpError ErrorCode string
  | PlainError js_error
  | NonError jsval

record 'a CallToolRequest =
  name :: string
  arguments :: 'a

text \<open>
  The ten handlers are imported from \<^verbatim>\<open>./handlers/drug-handlers.js\<close> and
  \<^verbatim>\<open>./handlers/device-handlers.js\<close>; they are parameters here. A handler takes
  the arguments and the state of the world, and returns a result or throws.
\<close>

record ('a, 'w, 'r) handlers =
  handleSearchDrugAdverseEvents :: "'a \<Rightarrow> 'w \<Rightarrow> (thrown + 'r) \<times> 'w"
  handleSearchDrugLabels :: "'a \<Rightarrow> 'w \<Rightarrow> (thrown + 'r) \<times> 'w"
  handleSearchDrugNDC :: "'a \<Rightarrow> 'w \<Rightarrow> (thrown + 'r) \<times> 'w"
  handleSearchDrugRecalls :: "'a \<Rightarrow> 'w \<Rightarrow> (thrown + 'r) \<times> 'w"
  handleSearchDrugsFDA :: "'a \<Rightarrow> 'w \<Rightarrow> (thrown + 'r) \<times> 'w"
  handleSearchDrugShortages :: "'a \<Rightarrow> 'w \<Rightarrow> (thrown + 'r) \<times> 'w"
  handleSearchDevice510K :: "'a \<Rightarrow> 'w \<Rightarrow> (thrown + 'r) \<times> 'w"
  handleSearchDeviceClassifications :: "'a \<Rightarrow> 'w \<Rightarrow> (thrown + 'r) \<times> 'w"
  handleSearchDeviceAdverseEvents :: "'a \<Rightarrow> 'w \<Rightarrow> (thrown + 'r) \<times> 'w"
  handleSearchDeviceRecalls :: "'a \<Rightarrow> 'w \<Rightarrow> (thrown + 'r) \<times> 'w"

text \<open>The names the list operation announces, in its order.\<close>

definition tool_names :: "string list" where
  "tool_names =
     [''search_drug_adverse_events'', ''search_drug_labels'', ''search_drug_ndc'',
      ''search_drug_recalls'', ''search_drugs_fda'', ''search_drug_shortages'',
      ''search_device_510k'', ''search_device_classifications'',
      ''search_device_adverse_events'', ''search_device_recalls'']"

text \<open>The body of the \<^verbatim>\<open>try\<close>: the \<^verbatim>\<open>switch\<close> on the tool name.\<close>

definition try_block ::
  "('a, 'w, 'r) handlers \<Rightarrow> 'a CallToolRequest \<Rightarrow> 'w \<Rightarrow> (thrown + 'r) \<times> 'w" where
  "try_block h req w =
     (if name req = ''search_drug_adverse_events'' then
        handleSearchDrugAdverseEvents h (arguments req) w
      else if name req = ''search_drug_labels'' then
        handleSearchDrugLabels h (arguments req) w
      else if name req = ''search_drug_ndc'' then
        handleSearchDrugNDC h (arguments req) w
      else if name req = ''search_drug_recalls'' then
        handleSearchDrugRecalls h (arguments req) w
      else if name req = ''search_drugs_fda'' then
        handleSearchDrugsFDA h (arguments req) w
      else if name req = ''search_drug_shortages'' then
        handleSearchDrugShortages h (arguments req) w
      else if name req = ''search_device_510k'' then
        handleSearchDevice510K h (arguments req) w
      else if name req = ''search_device_classifications'' then
        handleSearchDeviceClassifications h (arguments req) w
      else if name req = ''search_device_adverse_events'' then
        handleSearchDeviceAdverseEvents h (arguments req) w
      else if name req = ''search_device_recalls'' then
        handleSearchDeviceRecalls h (arguments req) w
      else (Inl (McpError MethodNotFound (''Unknown tool: '' @ name req)), w))"

text \<open>
  The \<^verbatim>\<open>catch\<close>: an \<^verbatim>\<open>McpError\<close> is thrown on; of anything else only
  the message survives, under the code \<^verbatim>\<open>InternalError\<close>.
\<close>

fun catch_block :: "thrown \<Rightarrow> thrown" where
  "catch_block (McpError code msg) = McpError code msg"
| "catch_block (PlainError (Error msg)) = McpError InternalError msg"
| "catch_block (NonError v) = McpError InternalError ''Unknown error occurred''"

definition call_tool ::
  "('a, 'w, 'r) handlers \<Rightarrow> 'a CallToolRequest \<Rightarrow> 'w \<Rightarrow> (thrown + 'r) \<times> 'w" where
  "call_tool h req w =
     (case try_block h req w of
        (Inr result, w') \<Rightarrow> (Inr result, w')
      | (Inl error, w') \<Rightarrow> (Inl (catch_block error), w'))"

section \<open>What a call sends\<close>

text \<open>The parameters of the request that a call of \<^verbatim>\<open>get\<close> issues.\<close>

definition outbound_params ::
  "(string \<Rightarrow> jsnum) \<Rightarrow> string option \<Rightarrow>
   (http_request list \<Rightarrow> http_request \<Rightarrow> 'd axios_outcome) \<Rightarrow> FDAAPIClient \<Rightarrow>
   string \<Rightarrow> jsobj \<Rightarrow> http_request list \<Rightarrow> jsobj" where
  "outbound_params sn env reply this endpoint_path ps issued =
     params (last (snd (get sn env reply this endpoint_path ps issued)))"

text \<open>An \<^verbatim>\<open>McpError\<close>, as \<^verbatim>\<open>instanceof\<close> tells it.\<close>

fun is_McpError :: "thrown \<Rightarrow> bool" where
  "is_McpError (McpError code msg) = True"
| "is_McpError (PlainError e) = False"
| "is_McpError (NonError v) = False"

text \<open>
  Handlers that record their own name in the world and return, and handlers that all
  throw the same value: the two families the dispatcher is run on below.
\<close>

definition recording_handlers :: "(unit, string list, unit) handlers" where
  "recording_handlers =
     \<lparr> handleSearchDrugAdverseEvents = (\<lambda>a w. (Inr (), w @ [''handleSearchDrugAdverseEvents''])),
       handleSearchDrugLabels = (\<lambda>a w. (Inr (), w @ [''handleSearchDrugLabels''])),
       handleSearchDrugNDC = (\<lambda>a w. (Inr (), w @ [''handleSearchDrugNDC''])),
       handleSearchDrugRecalls = (\<lambda>a w. (Inr (), w @ [''handleSearchDrugRecalls''])),
       handleSearchDrugsFDA = (\<lambda>a w. (Inr (), w @ [''handleSearchDrugsFDA''])),
       handleSearchDrugShortages = (\<lambda>a w. (Inr (), w @ [''handleSearchDrugShortages''])),
       handleSearchDevice510K = (\<lambda>a w. (Inr (), w @ [''handleSearchDevice510K''])),
       handleSearchDeviceClassifications =
         (\<lambda>a w. (Inr (), w @ [''handleSearchDeviceClassifications''])),
       handleSearchDeviceAdverseEvents =
         (\<lambda>a w. (Inr (), w @ [''handleSearchDeviceAdverseEvents''])),
       handleSearchDeviceRecalls = (\<lambda>a w. (Inr (), w @ [''handleSearchDeviceRecalls''])) \<rparr>"

definition throwing_handlers :: "thrown \<Rightarrow> (unit, unit, unit) handlers" where
  "throwing_handlers e =
     \<lparr> handleSearchDrugAdverseEvents = (\<lambda>a w. (Inl e, w)),
       handleSearchDrugLabels = (\<lambda>a w. (Inl e, w)),
       handleSearchDrugNDC = (\<lambda>a w. (Inl e, w)),
       handleSearchDrugRecalls = (\<lambda>a w. (Inl e, w)),
       handleSearchDrugsFDA = (\<lambda>a w. (Inl e, w)),
       handleSearchDrugShortages = (\<lambda>a w. (Inl e, w)),
       handleSearchDevice510K = (\<lambda>a w. (Inl e, w)),
       handleSearchDeviceClassifications = (\<lambda>a w. (Inl e, w)),
       handleSearchDeviceAdverseEvents = (\<lambda>a w. (Inl e, w)),
       handleSearchDeviceRecalls = (\<lambda>a w. (Inl e, w)) \<rparr>"

text \<open>A network that answers every request with the same outcome.\<close>

definition always :: "'d axios_outcome \<Rightarrow> http_request list \<Rightarrow> http_request \<Rightarrow> 'd axios_outcome" where
  "always outcome issued req = outcome"

text \<open>The error axios rejects with when the upstream answers with a status outside 2xx.\<close>

definition status_error :: "nat \<Rightarrow> axios_error" where
  "status_error s =
     \<lparr> response = Some \<lparr> status = s, data_error_message = None \<rparr>, request = True,
       message = ''Request failed with status code '' @ show_nat s \<rparr>"

section \<open>Properties of objects\<close>

lemma obj_get_set: "obj_get (obj_set ob k v) k' = (if k' = k then v else obj_get ob k')"
  by (simp add: obj_get_def obj_set_def update_conv')

lemma obj_get_delete: "obj_get (obj_delete k ob) k' = (if k' = k then JUndefined else obj_get ob k')"
  by (simp add: obj_get_def obj_delete_def delete_conv')

lemma obj_get_remove_step:
  "obj_get (remove_step key ob) k =
     (if k = key \<and> (obj_get ob k = JUndefined \<or> obj_get ob k = JNull) then JUndefined
      else obj_get ob k)"
  by (simp add: remove_step_def obj_get_delete)

lemma obj_get_fold_remove:
  "obj_get (fold remove_step ks ob) k =
     (if k \<in> set ks \<and> (obj_get ob k = JUndefined \<or> obj_get ob k = JNull) then JUndefined
      else obj_get ob k)"
proof (induction ks arbitrary: ob)
  case Nil
  show ?case by simp
next
  case (Cons key ks)
  show ?case
    by (simp add: Cons.IH obj_get_remove_step)
qed

lemma obj_get_remove_undefined:
  "obj_get (remove_undefined ob) k = (if obj_get ob k = JNull then JUndefined else obj_get ob k)"
proof (cases "k \<in> set (obj_keys ob)")
  case True
  then show ?thesis
    by (simp add: remove_undefined_def obj_get_fold_remove)
next
  case False
  then have "map_of ob k = None"
    by (simp add: obj_keys_def map_of_eq_None_iff)
  then have "obj_get ob k = JUndefined"
    by (simp add: obj_get_def)
  then show ?thesis
    by (simp add: remove_undefined_def obj_get_fold_remove)
qed

section \<open>Properties of the request parameters\<close>

lemma get_snd:
  "snd (get sn env reply this ep ps issued) =
     issued @ [\<lparr> endpoint = ep, params = request_params sn env this ps \<rparr>]"
  by (simp add: get_def axiosInstance_get_def split: axios_outcome.splits)

lemma outbound_params_eq:
  "outbound_params sn env reply this ep ps issued = request_params sn env this ps"
  by (simp add: outbound_params_def get_snd)

lemma map_of_remove_step:
  "map_of (remove_step key ob) k =
     (if k = key \<and> (obj_get ob k = JUndefined \<or> obj_get ob k = JNull) then None
      else map_of ob k)"
  by (auto simp add: remove_step_def obj_delete_def delete_conv')

lemma map_of_fold_remove:
  "map_of (fold remove_step ks ob) k =
     (if k \<in> set ks \<and> (obj_get ob k = JUndefined \<or> obj_get ob k = JNull) then None
      else map_of ob k)"
proof (induction ks arbitrary: ob)
  case Nil
  show ?case by simp
next
  case (Cons key ks)
  show ?case
    by (auto simp add: Cons.IH map_of_remove_step obj_get_remove_step)
qed

lemma keys_remove_undefined:
  "set (obj_keys (remove_undefined ob)) =
     {k. obj_get ob k \<noteq> JUndefined \<and> obj_get ob k \<noteq> JNull}"
proof -
  have "k \<in> set (obj_keys (remove_undefined ob)) \<longleftrightarrow>
          obj_get ob k \<noteq> JUndefined \<and> obj_get ob k \<noteq> JNull" for k
  proof -
    have "k \<in> set (obj_keys (remove_undefined ob)) \<longleftrightarrow> map_of (remove_undefined ob) k \<noteq> None"
      by (simp add: obj_keys_def map_of_eq_None_iff)
    also have "\<dots> \<longleftrightarrow> obj_get ob k \<noteq> JUndefined \<and> obj_get ob k \<noteq> JNull"
      by (auto simp add: remove_undefined_def map_of_fold_remove obj_get_def obj_keys_def
            map_of_eq_None_iff [symmetric] split: option.splits)
    finally show ?thesis .
  qed
  then show ?thesis by blast
qed

lemma obj_get_prepared_limit:
  "obj_get (prepared_params sn env this ps) ''limit'' =
     (if truthy (obj_get ps ''limit'')
      then Math_min sn (obj_get ps ''limit'') (JNum (Fin MAX_LIMIT))
      else JNum (Fin DEFAULT_LIMIT))"
  by (simp add: prepared_params_def ensure_limit_def add_api_key_def obj_get_set)

lemma obj_get_prepared_api_key:
  "obj_get (prepared_params sn env this ps) ''api_key'' =
     (if hasAPIKey this then JStr (FDA_API_KEY env) else obj_get ps ''api_key'')"
  by (simp add: prepared_params_def ensure_limit_def add_api_key_def obj_get_set)

lemma obj_get_prepared_other:
  "k \<noteq> ''limit'' \<Longrightarrow> k \<noteq> ''api_key'' \<Longrightarrow>
   obj_get (prepared_params sn env this ps) k = obj_get ps k"
  by (simp add: prepared_params_def ensure_limit_def add_api_key_def obj_get_set)

lemma Math_min_neq [simp]: "Math_min sn a b \<noteq> JUndefined" "Math_min sn a b \<noteq> JNull"
  by (simp_all add: Math_min_def)

lemma obj_get_request_limit:
  "obj_get (request_params sn env this ps) ''limit'' =
     (if truthy (obj_get ps ''limit'')
      then Math_min sn (obj_get ps ''limit'') (JNum (Fin MAX_LIMIT))
      else JNum (Fin DEFAULT_LIMIT))"
  by (simp add: request_params_def obj_get_remove_undefined obj_get_prepared_limit)

lemma fold_remove_id:
  "\<forall>k \<in> set ks. obj_get ob k \<noteq> JUndefined \<and> obj_get ob k \<noteq> JNull \<Longrightarrow>
   fold remove_step ks ob = ob"
  by (induction ks) (simp_all add: remove_step_def)

lemma remove_undefined_idem: "remove_undefined (remove_undefined ob) = remove_undefined ob"
proof -
  have "obj_get (remove_undefined ob) k \<noteq> JUndefined \<and> obj_get (remove_undefined ob) k \<noteq> JNull"
    if "k \<in> set (obj_keys (remove_undefined ob))" for k
    using that by (simp add: keys_remove_undefined obj_get_remove_undefined)
  then show ?thesis
    using fold_remove_id [of "obj_keys (remove_undefined ob)" "remove_undefined ob"]
    by (simp add: remove_undefined_def)
qed

lemma obj_set_same:
  "obj_get ob k = v \<Longrightarrow> k \<in> set (obj_keys ob) \<Longrightarrow> obj_set ob k v = ob"
proof -
  assume g: "obj_get ob k = v" and m: "k \<in> set (obj_keys ob)"
  from m have "map_of ob k \<noteq> None"
    by (simp add: obj_keys_def map_of_eq_None_iff)
  then obtain v' where "map_of ob k = Some v'"
    by blast
  with g have "map_of ob k = Some v"
    by (simp add: obj_get_def)
  then show ?thesis
    by (simp add: obj_set_def update_triv)
qed

lemma request_params_idem:
  assumes "obj_get ps ''limit'' = JNum (Fin q)" "1 \<le> q" "q \<le> 100"
  shows "request_params sn env this (request_params sn env this ps) = request_params sn env this ps"
proof -
  let ?R = "request_params sn env this ps"
  have lim: "obj_get ?R ''limit'' = JNum (Fin q)"
    using assms by (simp add: obj_get_request_limit Math_min_def MAX_LIMIT_def)
  have keys: "k \<in> set (obj_keys ?R) \<longleftrightarrow> obj_get ?R k \<noteq> JUndefined \<and> obj_get ?R k \<noteq> JNull" for k
    by (simp add: request_params_def keys_remove_undefined obj_get_remove_undefined)
  have key: "add_api_key env this ?R = ?R"
  proof (cases "hasAPIKey this")
    case True
    then have "obj_get ?R ''api_key'' = JStr (FDA_API_KEY env)"
      by (simp add: request_params_def obj_get_remove_undefined obj_get_prepared_api_key)
    then show ?thesis
      using True keys [of "''api_key''"] by (simp add: add_api_key_def obj_set_same)
  next
    case False
    then show ?thesis by (simp add: add_api_key_def)
  qed
  have "ensure_limit sn ?R = ?R"
    using lim assms keys [of "''limit''"]
    by (simp add: ensure_limit_def Math_min_def MAX_LIMIT_def obj_set_same)
  with key have "prepared_params sn env this ?R = ?R"
    by (simp add: prepared_params_def)
  then have "request_params sn env this ?R = remove_undefined ?R"
    by (simp add: request_params_def)
  also have "\<dots> = ?R"
    by (simp add: request_params_def remove_undefined_idem)
  finally show ?thesis .
qed

lemmas eval_defs =
  outbound_params_def get_def axiosInstance_get_def always_def request_params_def
  prepared_params_def ensure_limit_def add_api_key_def remove_undefined_def remove_step_def
  obj_get_def obj_set_def obj_delete_def obj_keys_def Math_min_def MAX_LIMIT_def DEFAULT_LIMIT_def
  new_FDAAPIClient_def FDA_API_KEY_def buildSearchParams_def searchDrugRecalls_def
  handleAPIError_def status_error_def

section \<open>The dispatcher\<close>

text \<open>
  C1. A request whose tool name is none of the registered names is answered with the
  \<^verbatim>\<open>McpError\<close> of code \<^verbatim>\<open>MethodNotFound\<close> and message
  \<^verbatim>\<open>Unknown tool: <name>\<close>, whatever the handlers are, and the world is as it was:
  no handler ran on the request.
\<close>

theorem unknown_tool:
  "name req \<notin> set tool_names \<Longrightarrow>
   call_tool h req w = (Inl (McpError MethodNotFound (''Unknown tool: '' @ name req)), w)"
  by (simp add: tool_names_def call_tool_def try_block_def)

text \<open>
  The request \<^verbatim>\<open>delete_everything\<close> on the recording handlers: the record of
  invocations stays empty.
\<close>

theorem unknown_tool_witness:
  "''delete_everything'' \<notin> set tool_names \<and>
   call_tool recording_handlers \<lparr> name = ''delete_everything'', arguments = () \<rparr> [] =
     (Inl (McpError MethodNotFound ''Unknown tool: delete_everything''), [])"
  using unknown_tool [of "\<lparr> name = ''delete_everything'', arguments = () \<rparr>" recording_handlers "[]"]
  by (simp add: tool_names_def)

text \<open>
  C5. Whatever the dispatcher throws is an \<^verbatim>\<open>McpError\<close>; every value thrown
  inside the \<^verbatim>\<open>try\<close> leaves the dispatcher as an \<^verbatim>\<open>McpError\<close>,
  and one that is an \<^verbatim>\<open>McpError\<close> already leaves it unchanged.
\<close>

theorem errors_enveloped:
  "(\<forall>e. fst (call_tool h req w) = Inl e \<longrightarrow> is_McpError e) \<and>
   (\<forall>e0. fst (try_block h req w) = Inl e0 \<longrightarrow>
      (\<exists>code msg. fst (call_tool h req w) = Inl (McpError code msg) \<and>
         (is_McpError e0 \<longrightarrow> e0 = McpError code msg)))"
proof (cases "try_block h req w")
  case (Pair out w')
  show ?thesis
  proof (cases out)
    case (Inl e0)
    with Pair show ?thesis
      by (cases e0 rule: catch_block.cases) (simp_all add: call_tool_def)
  next
    case (Inr r)
    with Pair show ?thesis
      by (simp add: call_tool_def)
  qed
qed

text \<open>
  A handler that throws a plain network error, and a handler that throws an
  \<^verbatim>\<open>McpError\<close> of its own.
\<close>

theorem errors_enveloped_witness:
  "fst (try_block (throwing_handlers (PlainError (Error ''Network error: Unable to connect to FDA API'')))
          \<lparr> name = ''search_drug_labels'', arguments = () \<rparr> ()) =
     Inl (PlainError (Error ''Network error: Unable to connect to FDA API'')) \<and>
   fst (call_tool (throwing_handlers (PlainError (Error ''Network error: Unable to connect to FDA API'')))
          \<lparr> name = ''search_drug_labels'', arguments = () \<rparr> ()) =
     Inl (McpError InternalError ''Network error: Unable to connect to FDA API'') \<and>
   fst (try_block (throwing_handlers (McpError InvalidParams ''limit must be a number''))
          \<lparr> name = ''search_device_510k'', arguments = () \<rparr> ()) =
     Inl (McpError InvalidParams ''limit must be a number'') \<and>
   fst (call_tool (throwing_handlers (McpError InvalidParams ''limit must be a number''))
          \<lparr> name = ''search_device_510k'', arguments = () \<rparr> ()) =
     Inl (McpError InvalidParams ''limit must be a number'')"
  using
    errors_enveloped [of "throwing_handlers (PlainError (Error ''Network error: Unable to connect to FDA API''))"
      "\<lparr> name = ''search_drug_labels'', arguments = () \<rparr>" "()"]
    errors_enveloped [of "throwing_handlers (McpError InvalidParams ''limit must be a number'')"
      "\<lparr> name = ''search_device_510k'', arguments = () \<rparr>" "()"]
  by (simp add: call_tool_def try_block_def throwing_handlers_def)

section \<open>The client\<close>

text \<open>
  C7. A call of \<^verbatim>\<open>get\<close> adds exactly one request to the requests issued, the
  one with the prepared parameters, whatever the network answers.
\<close>

theorem get_one_request:
  "snd (get sn env reply this ep ps issued) =
     issued @ [\<lparr> endpoint = ep, params = request_params sn env this ps \<rparr>] \<and>
   length (snd (get sn env reply this ep ps issued)) = length issued + 1"
  by (simp add: get_snd)

text \<open>A rejected call after two earlier requests: one more request, no retry.\<close>

theorem get_one_request_witness:
  "length (snd (get (\<lambda>s. NaN) None (always (Rejected (status_error 503)) :: _ \<Rightarrow> _ \<Rightarrow> unit axios_outcome)
                  (new_FDAAPIClient None) ''/drug/event.json'' []
                  [\<lparr> endpoint = ''/a'', params = [] \<rparr>, \<lparr> endpoint = ''/b'', params = [] \<rparr>])) = 3"
  using get_one_request [of "\<lambda>s. NaN" None "always (Rejected (status_error 503)) :: _ \<Rightarrow> _ \<Rightarrow> unit axios_outcome"
      "new_FDAAPIClient None" "''/drug/event.json''" "[]"
      "[\<lparr> endpoint = ''/a'', params = [] \<rparr>, \<lparr> endpoint = ''/b'', params = [] \<rparr>]"]
  by simp

text \<open>
  What \<^verbatim>\<open>get\<close> alone does to the parameters it is handed: it sends
  \<^verbatim>\<open>limit\<close>, \<^verbatim>\<open>api_key\<close> when the client has a key, and the keys handed
  in whose value is neither undefined nor null.
\<close>

lemma request_params_keys_vals:
  "set (obj_keys (request_params sn env this ps)) =
     {k. k = ''limit'' \<or> (k = ''api_key'' \<and> hasAPIKey this) \<or>
         (obj_get ps k \<noteq> JUndefined \<and> obj_get ps k \<noteq> JNull)} \<and>
   (\<forall>k \<in> set (obj_keys (request_params sn env this ps)).
      obj_get (request_params sn env this ps) k \<noteq> JUndefined \<and>
      obj_get (request_params sn env this ps) k \<noteq> JNull \<and>
      (k \<noteq> ''limit'' \<and> k \<noteq> ''api_key'' \<longrightarrow>
         obj_get (request_params sn env this ps) k = obj_get ps k))"
proof -
  let ?P = "prepared_params sn env this ps"
  have has: "obj_get ?P k \<noteq> JUndefined \<and> obj_get ?P k \<noteq> JNull \<longleftrightarrow>
               k = ''limit'' \<or> (k = ''api_key'' \<and> hasAPIKey this) \<or>
               (obj_get ps k \<noteq> JUndefined \<and> obj_get ps k \<noteq> JNull)" for k
  proof (cases "k = ''limit''")
    case True
    then show ?thesis
      by (simp add: obj_get_prepared_limit)
  next
    case False
    note nl = this
    show ?thesis
    proof (cases "k = ''api_key''")
      case True
      then show ?thesis
        by (simp add: obj_get_prepared_api_key)
    next
      case False
      with nl show ?thesis
        by (simp add: obj_get_prepared_other)
    qed
  qed
  have keys: "set (obj_keys (request_params sn env this ps)) =
                {k. k = ''limit'' \<or> (k = ''api_key'' \<and> hasAPIKey this) \<or>
                    (obj_get ps k \<noteq> JUndefined \<and> obj_get ps k \<noteq> JNull)}"
    unfolding request_params_def keys_remove_undefined using has by blast
  have vals: "obj_get (request_params sn env this ps) k \<noteq> JUndefined \<and>
              obj_get (request_params sn env this ps) k \<noteq> JNull \<and>
              (k \<noteq> ''limit'' \<and> k \<noteq> ''api_key'' \<longrightarrow>
                 obj_get (request_params sn env this ps) k = obj_get ps k)"
    if "k \<in> set (obj_keys (request_params sn env this ps))" for k
  proof -
    from that have nn: "obj_get ?P k \<noteq> JUndefined \<and> obj_get ?P k \<noteq> JNull"
      by (simp add: request_params_def keys_remove_undefined)
    then have same: "obj_get (request_params sn env this ps) k = obj_get ?P k"
      by (simp add: request_params_def obj_get_remove_undefined)
    have "obj_get ?P k = obj_get ps k" if "k \<noteq> ''limit''" "k \<noteq> ''api_key''"
      using that by (rule obj_get_prepared_other)
    with nn same show ?thesis
      by simp
  qed
  show ?thesis
    using keys vals by blast
qed

text \<open>What \<^verbatim>\<open>buildSearchParams\<close> hands to \<^verbatim>\<open>get\<close>.\<close>

lemma truthy_has_value: "truthy v \<Longrightarrow> v \<noteq> JUndefined \<and> v \<noteq> JNull"
  by (cases v) simp_all

lemma obj_get_buildSearchParams:
  "obj_get (buildSearchParams sn sp) k =
     (if (k = ''search'' \<or> k = ''count'' \<or> k = ''skip'') \<and> truthy (obj_get sp k)
      then obj_get sp k
      else if k = ''limit'' \<and> truthy (obj_get sp ''limit'')
      then Math_min sn (obj_get sp ''limit'') (JNum (Fin MAX_LIMIT))
      else JUndefined)"
proof -
  have e: "obj_get [] key = JUndefined" for key
    by (simp add: obj_get_def)
  show ?thesis
    by (simp add: buildSearchParams_def Let_def obj_get_set e)
qed

lemma built_has_value:
  "obj_get (buildSearchParams sn sp) k \<noteq> JUndefined \<and> obj_get (buildSearchParams sn sp) k \<noteq> JNull
     \<longleftrightarrow> (k = ''search'' \<or> k = ''count'' \<or> k = ''skip'' \<or> k = ''limit'') \<and> truthy (obj_get sp k)"
  using truthy_has_value [of "obj_get sp k"]
  by (auto simp add: obj_get_buildSearchParams)

lemma search_operation_sends:
  "op \<in> set (search_operations sn env reply this) \<Longrightarrow>
   sent_params (op sp issued) = request_params sn env this (buildSearchParams sn sp)"
  by (auto simp add: search_operations_def sent_params_def get_snd
        searchDrugAdverseEvents_def searchDrugLabels_def searchDrugNDC_def searchDrugRecalls_def
        searchDrugsFDA_def searchDrugShortages_def searchDevice510K_def
        searchDeviceClassifications_def searchDeviceAdverseEvents_def searchDeviceRecalls_def
        searchFoodAdverseEvents_def searchFoodRecalls_def)

text \<open>
  C8, as stated, fails on the builder: a search for drug recalls with the search text,
  \<^verbatim>\<open>skip: 0\<close> and a key \<^verbatim>\<open>sort\<close> sends the search text, the key and the
  default limit. The two other keys have a value and are not sent.
\<close>

theorem skip_zero_dropped:
  "obj_get [(''search'', JStr ''aspirin''), (''skip'', JNum (Fin 0)), (''sort'', JStr ''date'')]
     ''skip'' = JNum (Fin 0) \<and>
   obj_get [(''search'', JStr ''aspirin''), (''skip'', JNum (Fin 0)), (''sort'', JStr ''date'')]
     ''sort'' = JStr ''date'' \<and>
   snd (searchDrugRecalls (\<lambda>s. NaN) None (always (Resolved ())) (new_FDAAPIClient None)
          [(''search'', JStr ''aspirin''), (''skip'', JNum (Fin 0)), (''sort'', JStr ''date'')] []) =
     [\<lparr> endpoint = ''/drug/enforcement.json'',
        params = [(''search'', JStr ''aspirin''),
                  (''api_key'', JStr ''sNQRRzbOvngzuFVbiajF6AelXY7QncaX3OKN8YQD''),
                  (''limit'', JNum (Fin 10))] \<rparr>]"
  by (simp add: eval_defs)

text \<open>
  C8, amended. Whichever of the twelve search operations is called, the keys of the
  request it sends are \<^verbatim>\<open>limit\<close>, \<^verbatim>\<open>api_key\<close> when the client has a key, and
  those of \<^verbatim>\<open>search\<close>, \<^verbatim>\<open>count\<close> and \<^verbatim>\<open>skip\<close> whose value in the
  caller's parameters is truthy. A key whose value is undefined or null is omitted, and
  so is one whose value is falsy otherwise, and every key other than the four. No key sent
  has an undefined or null value, and the three keep the caller's value.
\<close>

theorem search_sends_truthy_fields:
  "\<forall>op \<in> set (search_operations sn env reply this).
     set (obj_keys (sent_params (op sp issued))) =
       {k. k = ''limit'' \<or> (k = ''api_key'' \<and> hasAPIKey this) \<or>
           ((k = ''search'' \<or> k = ''count'' \<or> k = ''skip'') \<and> truthy (obj_get sp k))} \<and>
     (\<forall>k \<in> set (obj_keys (sent_params (op sp issued))).
        obj_get (sent_params (op sp issued)) k \<noteq> JUndefined \<and>
        obj_get (sent_params (op sp issued)) k \<noteq> JNull \<and>
        (k = ''search'' \<or> k = ''count'' \<or> k = ''skip'' \<longrightarrow>
           obj_get (sent_params (op sp issued)) k = obj_get sp k))"
proof (intro ballI)
  fix op
  assume "op \<in> set (search_operations sn env reply this)"
  then have sent: "sent_params (op sp issued) = request_params sn env this (buildSearchParams sn sp)"
    by (rule search_operation_sends)
  let ?B = "buildSearchParams sn sp"
  let ?R = "request_params sn env this ?B"
  note r = request_params_keys_vals [of sn env this ?B]
  have keys: "set (obj_keys ?R) =
                {k. k = ''limit'' \<or> (k = ''api_key'' \<and> hasAPIKey this) \<or>
                    ((k = ''search'' \<or> k = ''count'' \<or> k = ''skip'') \<and> truthy (obj_get sp k))}"
    using r built_has_value [of sn sp] by auto
  have vals: "obj_get ?R k \<noteq> JUndefined \<and> obj_get ?R k \<noteq> JNull \<and>
              (k = ''search'' \<or> k = ''count'' \<or> k = ''skip'' \<longrightarrow> obj_get ?R k = obj_get sp k)"
    if k: "k \<in> set (obj_keys ?R)" for k
  proof -
    from r k have nn: "obj_get ?R k \<noteq> JUndefined \<and> obj_get ?R k \<noteq> JNull"
      by blast
    have "obj_get ?R k = obj_get sp k" if three: "k = ''search'' \<or> k = ''count'' \<or> k = ''skip''"
    proof -
      from three have other: "k \<noteq> ''limit'' \<and> k \<noteq> ''api_key''"
        by auto
      with r k have same: "obj_get ?R k = obj_get ?B k"
        by blast
      from k have "k = ''limit'' \<or> (k = ''api_key'' \<and> hasAPIKey this) \<or>
                     ((k = ''search'' \<or> k = ''count'' \<or> k = ''skip'') \<and> truthy (obj_get sp k))"
        by (simp add: keys)
      with other have "truthy (obj_get sp k)"
        by simp
      with three have "obj_get ?B k = obj_get sp k"
        by (simp add: obj_get_buildSearchParams)
      with same show ?thesis
        by simp
    qed
    with nn show ?thesis
      by blast
  qed
  show "set (obj_keys (sent_params (op sp issued))) =
          {k. k = ''limit'' \<or> (k = ''api_key'' \<and> hasAPIKey this) \<or>
              ((k = ''search'' \<or> k = ''count'' \<or> k = ''skip'') \<and> truthy (obj_get sp k))} \<and>
        (\<forall>k \<in> set (obj_keys (sent_params (op sp issued))).
           obj_get (sent_params (op sp issued)) k \<noteq> JUndefined \<and>
           obj_get (sent_params (op sp issued)) k \<noteq> JNull \<and>
           (k = ''search'' \<or> k = ''count'' \<or> k = ''skip'' \<longrightarrow>
              obj_get (sent_params (op sp issued)) k = obj_get sp k))"
    unfolding sent using keys vals by blast
qed

text \<open>
  A search of the drug labels with an undefined \<^verbatim>\<open>count\<close>, \<^verbatim>\<open>skip: 0\<close> and a
  key \<^verbatim>\<open>sort\<close>: only the search text is sent of the four, as given.
\<close>

theorem search_sends_truthy_fields_witness:
  "searchDrugLabels (\<lambda>s. NaN) None (always (Resolved ())) (new_FDAAPIClient None)
     \<in> set (search_operations (\<lambda>s. NaN) None (always (Resolved ())) (new_FDAAPIClient None)) \<and>
   set (obj_keys (sent_params
          (searchDrugLabels (\<lambda>s. NaN) None (always (Resolved ())) (new_FDAAPIClient None)
             [(''search'', JStr ''aspirin''), (''count'', JUndefined), (''skip'', JNum (Fin 0)),
              (''sort'', JStr ''date'')] []))) =
     {''search'', ''limit'', ''api_key''} \<and>
   obj_get (sent_params
          (searchDrugLabels (\<lambda>s. NaN) None (always (Resolved ())) (new_FDAAPIClient None)
             [(''search'', JStr ''aspirin''), (''count'', JUndefined), (''skip'', JNum (Fin 0)),
              (''sort'', JStr ''date'')] []))
     ''search'' = JStr ''aspirin''"
proof -
  let ?sp = "[(''search'', JStr ''aspirin''), (''count'', JUndefined), (''skip'', JNum (Fin 0)),
              (''sort'', JStr ''date'')]"
  let ?op = "searchDrugLabels (\<lambda>s. NaN) None (always (Resolved ())) (new_FDAAPIClient None)
               :: unit search_operation"
  let ?out = "sent_params (?op ?sp [])"
  have m: "?op \<in> set (search_operations (\<lambda>s. NaN) None (always (Resolved ())) (new_FDAAPIClient None))"
    by (simp add: search_operations_def)
  note r = search_sends_truthy_fields [of "\<lambda>s. NaN" None "always (Resolved ())"
      "new_FDAAPIClient None" ?sp "[]", THEN bspec, OF m]
  have k: "hasAPIKey (new_FDAAPIClient None)"
    by (simp add: new_FDAAPIClient_def FDA_API_KEY_def)
  have "{k. k = ''limit'' \<or> (k = ''api_key'' \<and> hasAPIKey (new_FDAAPIClient None)) \<or>
            ((k = ''search'' \<or> k = ''count'' \<or> k = ''skip'') \<and> truthy (obj_get ?sp k))} =
        {''search'', ''limit'', ''api_key''}"
    using k by (auto simp add: obj_get_def)
  with r have keys: "set (obj_keys ?out) = {''search'', ''limit'', ''api_key''}"
    by simp
  then have s: "''search'' \<in> set (obj_keys ?out)"
    by simp
  from r have "\<forall>k \<in> set (obj_keys ?out).
                 k = ''search'' \<or> k = ''count'' \<or> k = ''skip'' \<longrightarrow> obj_get ?out k = obj_get ?sp k"
    by blast
  with s have "obj_get ?out ''search'' = obj_get ?sp ''search''"
    by blast
  then have "obj_get ?out ''search'' = JStr ''aspirin''"
    by (simp add: obj_get_def)
  with m keys show ?thesis
    by blast
qed

text \<open>
  C10. When the caller's \<^verbatim>\<open>limit\<close> is falsy (absent, undefined, null, 0, NaN, an
  empty string or false), the limit sent is the default 10.
\<close>

theorem falsy_limit_default:
  "\<not> truthy (obj_get ps ''limit'') \<Longrightarrow>
   obj_get (outbound_params sn env reply this ep ps issued) ''limit'' = JNum (Fin 10)"
  by (simp add: outbound_params_eq obj_get_request_limit DEFAULT_LIMIT_def)

text \<open>A limit of 0 is sent as 10, not as the declared minimum 1.\<close>

theorem falsy_limit_default_witness:
  "\<not> truthy (obj_get [(''limit'', JNum (Fin 0))] ''limit'') \<and>
   obj_get (outbound_params (\<lambda>s. NaN) None (always (Resolved ())) (new_FDAAPIClient None)
              ''/drug/label.json'' [(''limit'', JNum (Fin 0))] []) ''limit'' = JNum (Fin 10)"
  using falsy_limit_default [of "[(''limit'', JNum (Fin 0))]" "\<lambda>s. NaN" None
      "always (Resolved ())" "new_FDAAPIClient None" "''/drug/label.json''" "[]"]
  by (simp add: obj_get_def)

text \<open>
  C9. A finite limit between 1 and 100 is sent as it is, by \<^verbatim>\<open>get\<close> and by
  \<^verbatim>\<open>buildSearchParams\<close>, and preparing the prepared parameters once more
  changes nothing.
\<close>

theorem clamp_in_bounds_fixed:
  assumes "obj_get ps ''limit'' = JNum (Fin q)" "1 \<le> q" "q \<le> 100"
  shows "obj_get (outbound_params sn env reply this ep ps issued) ''limit'' = JNum (Fin q) \<and>
         obj_get (buildSearchParams sn ps) ''limit'' = JNum (Fin q) \<and>
         outbound_params sn env reply this ep
           (outbound_params sn env reply this ep ps issued) issued' =
         outbound_params sn env reply this ep ps issued"
proof -
  have "obj_get (request_params sn env this ps) ''limit'' = JNum (Fin q)"
    using assms by (simp add: obj_get_request_limit Math_min_def MAX_LIMIT_def)
  moreover have "obj_get (buildSearchParams sn ps) ''limit'' = JNum (Fin q)"
    using assms by (simp add: buildSearchParams_def Let_def Math_min_def MAX_LIMIT_def obj_get_set)
  ultimately show ?thesis
    using request_params_idem [OF assms] by (simp add: outbound_params_eq)
qed

theorem clamp_in_bounds_fixed_witness:
  "obj_get [(''limit'', JNum (Fin 5))] ''limit'' = JNum (Fin 5) \<and> (1::rat) \<le> 5 \<and> (5::rat) \<le> 100 \<and>
   obj_get (outbound_params (\<lambda>s. NaN) None (always (Resolved ())) (new_FDAAPIClient None)
              ''/drug/label.json'' [(''limit'', JNum (Fin 5))] []) ''limit'' = JNum (Fin 5)"
  using clamp_in_bounds_fixed [of "[(''limit'', JNum (Fin 5))]" 5 "\<lambda>s. NaN" None
      "always (Resolved ())" "new_FDAAPIClient None" "''/drug/label.json''" "[]" "[]"]
  by (simp add: obj_get_def)

text \<open>
  C3. The limit is bounded from above only. The search for drug recalls with a limit of
  -5 succeeds on the client's side and has sent the limit -5, below the declared
  minimum 1.
\<close>

theorem negative_limit_sent:
  "fst (searchDrugRecalls (\<lambda>s. NaN) None (always (Resolved ())) (new_FDAAPIClient None)
          [(''limit'', JNum (Fin (- 5)))] []) = Inr () \<and>
   snd (searchDrugRecalls (\<lambda>s. NaN) None (always (Resolved ())) (new_FDAAPIClient None)
          [(''limit'', JNum (Fin (- 5)))] []) =
     [\<lparr> endpoint = ''/drug/enforcement.json'',
        params = [(''limit'', JNum (Fin (- 5))),
                  (''api_key'', JStr ''sNQRRzbOvngzuFVbiajF6AelXY7QncaX3OKN8YQD'')] \<rparr>]"
  by (simp add: eval_defs)

text \<open>
  C4. The key is meant to be optional: the source reads it \<^verbatim>\<open>from environment
  variable\<close>, adds it \<^verbatim>\<open>if available\<close>, and keeps rate limits and messages for a
  client without one. With the environment variable not set, the client constructed
  still reports a key, and the request it sends carries as \<^verbatim>\<open>api_key\<close> the
  literal written in the source, where the claim has the request go out without a key.
\<close>

theorem key_without_env:
  "hasAPIKey (new_FDAAPIClient None) \<and>
   obj_get (outbound_params (\<lambda>s. NaN) None (always (Resolved ())) (new_FDAAPIClient None)
              ''/drug/label.json'' [(''search'', JStr ''aspirin'')] []) ''api_key'' =
     JStr ''sNQRRzbOvngzuFVbiajF6AelXY7QncaX3OKN8YQD'' \<and>
   ''api_key'' \<in> set (obj_keys (outbound_params (\<lambda>s. NaN) None (always (Resolved ()))
                                   (new_FDAAPIClient None) ''/drug/label.json''
                                   [(''search'', JStr ''aspirin'')] []))"
  by (simp add: eval_defs)

text \<open>
  C2, as stated, fails: an upstream answer with status 404 reaches the caller of
  \<^verbatim>\<open>get\<close> as a thrown error, not as a result.
\<close>

theorem not_found_is_error:
  "fst (get (\<lambda>s. NaN) None (always (Rejected (status_error 404))) (new_FDAAPIClient None)
          ''/drug/label.json'' [(''search'', JStr ''zzzz'')] []) =
     (Inl (Error ''No results found for the given search criteria'') :: js_error + unit)"
  by (simp add: eval_defs)

text \<open>
  C2, amended. When axios rejects with a response of status 404, \<^verbatim>\<open>get\<close> throws
  the error with the message \<^verbatim>\<open>No results found for the given search criteria\<close>;
  when axios resolves, \<^verbatim>\<open>get\<close> returns the data of the response as it is, an
  empty result set included.
\<close>

theorem not_found_amended:
  "(reply issued \<lparr> endpoint = ep, params = request_params sn env this ps \<rparr> = Rejected err \<and>
    response err = Some resp \<and> status resp = 404 \<longrightarrow>
      fst (get sn env reply this ep ps issued) =
        Inl (Error ''No results found for the given search criteria'')) \<and>
   (reply issued \<lparr> endpoint = ep, params = request_params sn env this ps \<rparr> = Resolved d \<longrightarrow>
      fst (get sn env reply this ep ps issued) = Inr d)"
  by (simp add: get_def axiosInstance_get_def handleAPIError_def)

theorem not_found_amended_witness:
  "fst (get (\<lambda>s. NaN) None (always (Rejected (status_error 404))) (new_FDAAPIClient None)
          ''/drug/label.json'' [] []) =
     (Inl (Error ''No results found for the given search criteria'') :: js_error + nat list) \<and>
   fst (get (\<lambda>s. NaN) None (always (Resolved ([] :: nat list))) (new_FDAAPIClient None)
          ''/drug/label.json'' [] []) = Inr []"
  using
    not_found_amended [of "always (Rejected (status_error 404)) :: _ \<Rightarrow> _ \<Rightarrow> nat list axios_outcome"
      "[]" "''/drug/label.json''" "\<lambda>s. NaN" None "new_FDAAPIClient None" "[]"
      "status_error 404" "\<lparr> status = 404, data_error_message = None \<rparr>" "[]"]
    not_found_amended [of "always (Resolved ([] :: nat list))"
      "[]" "''/drug/label.json''" "\<lambda>s. NaN" None "new_FDAAPIClient None" "[]"
      "status_error 404" "\<lparr> status = 404, data_error_message = None \<rparr>" "[]"]
  by (simp add: always_def status_error_def)

text \<open>
  C6, as stated, fails: the error thrown for status 429 is a plain error with a message,
  and its \<^verbatim>\<open>status\<close> is undefined.
\<close>

theorem rate_limit_no_status:
  "fst (get (\<lambda>s. NaN) None (always (Rejected (status_error 429))) (new_FDAAPIClient None)
          ''/drug/label.json'' [(''search'', JStr ''aspirin'')] []) =
     (Inl (Error ''Rate limit exceeded. API key rate limits'') :: js_error + unit) \<and>
   error_prop (handleAPIError (new_FDAAPIClient None) (status_error 429)) ''status'' = JUndefined"
  by (simp add: eval_defs)

text \<open>
  C6, amended. When axios rejects with a response of status 429, the error thrown is
  \<^verbatim>\<open>Rate limit exceeded.\<close> followed by \<^verbatim>\<open>API key rate limits\<close> when the
  client has a key and by \<^verbatim>\<open>Consider using an API key for higher limits\<close>
  otherwise; the message alone tells the condition, the error has no status; and
  \<^verbatim>\<open>get\<close> throws that error.
\<close>

theorem rate_limit_amended:
  "response err = Some resp \<Longrightarrow> status resp = 429 \<Longrightarrow>
   handleAPIError this err =
     Error (''Rate limit exceeded. '' @
            (if hasAPIKey this then ''API key rate limits''
             else ''Consider using an API key for higher limits'')) \<and>
   error_prop (handleAPIError this err) ''status'' = JUndefined \<and>
   (reply issued \<lparr> endpoint = ep, params = request_params sn env this ps \<rparr> = Rejected err \<longrightarrow>
      fst (get sn env reply this ep ps issued) = Inl (handleAPIError this err))"
  by (simp add: get_def axiosInstance_get_def handleAPIError_def)

theorem rate_limit_amended_witness:
  "response (status_error 429) = Some \<lparr> status = 429, data_error_message = None \<rparr> \<and>
   handleAPIError \<lparr> hasAPIKey = False \<rparr> (status_error 429) =
     Error ''Rate limit exceeded. Consider using an API key for higher limits'' \<and>
   fst (get (\<lambda>s. NaN) None (always (Rejected (status_error 429))) \<lparr> hasAPIKey = False \<rparr>
          ''/drug/label.json'' [] []) =
     (Inl (Error ''Rate limit exceeded. Consider using an API key for higher limits'')
        :: js_error + unit)"
  using rate_limit_amended [of "status_error 429" "\<lparr> status = 429, data_error_message = None \<rparr>"
      "\<lparr> hasAPIKey = False \<rparr>" "always (Rejected (status_error 429)) :: _ \<Rightarrow> _ \<Rightarrow> unit axios_outcome"
      "[]" "''/drug/label.json''" "\<lambda>s. NaN" None "[]"]
  by (simp add: always_def status_error_def)

end
